theory Spec2Isabelle
  imports Complex_Main
begin

section \<open>Values exchanged with the outside\<close>

text \<open>
  The request handlers receive and produce JSON, and the completion API answers with JSON.
  A Python value obtained from \<^verbatim>\<open>response.json()\<close> is one of these; a Python
  \<^verbatim>\<open>dict\<close> keeps its keys in insertion order, so it is an association list.
  Python strings are kept as their UTF-8 bytes.
\<close>

datatype json =
    JNull
  | JBool bool
  | JInt int
  | JFloat real
  | JStr string
  | JList "json list"
  | JDict "(string \<times> json) list"

datatype http_exception = HTTPException (status_code: int) (detail: string)

datatype json_response = JSONResponse (status: int) (content: json)

text \<open>
  The exception classes the handlers tell apart. \<open>IntegrityError\<close> and
  \<open>OperationalError\<close> are subclasses of \<open>SQLAlchemyError\<close>; \<open>OverflowError\<close> is what the
  driver of the store raises for an integer it cannot bind; \<open>OtherException\<close> stands for
  every other class that none of the \<^verbatim>\<open>except\<close> clauses names.
\<close>

datatype py_exc =
    SQLAlchemyError
  | IntegrityError
  | OperationalError
  | KeyError
  | IndexError
  | TypeError
  | OverflowError
  | OtherException

fun isinstance_SQLAlchemyError :: "py_exc \<Rightarrow> bool" where
  "isinstance_SQLAlchemyError SQLAlchemyError = True"
| "isinstance_SQLAlchemyError IntegrityError = True"
| "isinstance_SQLAlchemyError OperationalError = True"
| "isinstance_SQLAlchemyError _ = False"

text \<open>What a \<^verbatim>\<open>try\<close> block ends with when it does not return.\<close>

datatype raised = Http http_exception | Exc py_exc

section \<open>Texts of the responses\<close>

text \<open>
  The source writes its response texts in Chinese. Each literal is kept here byte for byte
  in UTF-8, with its meaning as a comment.
\<close>

definition msg_chat_ok :: string where
  \<comment> \<open>chat reply obtained\<close>
  "msg_chat_ok =
   [CHR 0xE8, CHR 0x8E, CHR 0xB7, CHR 0xE5, CHR 0x8F, CHR 0x96, CHR 0xE5, CHR 0x9B, CHR 0x9E,
    CHR 0xE7, CHR 0xAD, CHR 0x94, CHR 0xE6, CHR 0x88, CHR 0x90, CHR 0xE5, CHR 0x8A, CHR 0x9F]"

definition detail_db_or_api_failed :: string where
  \<comment> \<open>database operation or API call failed\<close>
  "detail_db_or_api_failed =
   [CHR 0xE6, CHR 0x95, CHR 0xB0, CHR 0xE6, CHR 0x8D, CHR 0xAE, CHR 0xE5, CHR 0xBA, CHR 0x93,
    CHR 0xE6, CHR 0x93, CHR 0x8D, CHR 0xE4, CHR 0xBD, CHR 0x9C, CHR 0xE6, CHR 0x88, CHR 0x96,
    CHR 0x41, CHR 0x50, CHR 0x49, CHR 0xE8, CHR 0xB0, CHR 0x83, CHR 0xE7, CHR 0x94, CHR 0xA8,
    CHR 0xE5, CHR 0xA4, CHR 0xB1, CHR 0xE8, CHR 0xB4, CHR 0xA5]"

definition detail_openai_unexpected :: string where
  \<comment> \<open>unknown error while talking to OpenAI\<close>
  "detail_openai_unexpected =
   [CHR 0xE4, CHR 0xB8, CHR 0x8E, CHR 0x4F, CHR 0x70, CHR 0x65, CHR 0x6E, CHR 0x41, CHR 0x49,
    CHR 0xE9, CHR 0x80, CHR 0x9A, CHR 0xE4, CHR 0xBF, CHR 0xA1, CHR 0xE6, CHR 0x97, CHR 0xB6,
    CHR 0xE5, CHR 0x8F, CHR 0x91, CHR 0xE7, CHR 0x94, CHR 0x9F, CHR 0xE6, CHR 0x9C, CHR 0xAA,
    CHR 0xE7, CHR 0x9F, CHR 0xA5, CHR 0xE9, CHR 0x94, CHR 0x99, CHR 0xE8, CHR 0xAF, CHR 0xAF]"

definition detail_session_missing :: string where
  \<comment> \<open>session ID does not exist\<close>
  "detail_session_missing =
   [CHR 0xE4, CHR 0xBC, CHR 0x9A, CHR 0xE8, CHR 0xAF, CHR 0x9D, CHR 0x49, CHR 0x44, CHR 0xE4,
    CHR 0xB8, CHR 0x8D, CHR 0xE5, CHR 0xAD, CHR 0x98, CHR 0xE5, CHR 0x9C, CHR 0xA8]"

definition msg_get_messages_ok :: string where
  \<comment> \<open>all messages of the session fetched\<close>
  "msg_get_messages_ok =
   [CHR 0xE8, CHR 0x8E, CHR 0xB7, CHR 0xE5, CHR 0x8F, CHR 0x96, CHR 0xE6, CHR 0x8C, CHR 0x87,
    CHR 0xE5, CHR 0xAE, CHR 0x9A, CHR 0xE4, CHR 0xBC, CHR 0x9A, CHR 0xE8, CHR 0xAF, CHR 0x9D,
    CHR 0xE4, CHR 0xB8, CHR 0xAD, CHR 0xE7, CHR 0x9A, CHR 0x84, CHR 0xE6, CHR 0x89, CHR 0x80,
    CHR 0xE6, CHR 0x9C, CHR 0x89, CHR 0xE6, CHR 0xB6, CHR 0x88, CHR 0xE6, CHR 0x81, CHR 0xAF,
    CHR 0xE6, CHR 0x88, CHR 0x90, CHR 0xE5, CHR 0x8A, CHR 0x9F]"

definition detail_query_messages_failed :: string where
  \<comment> \<open>database query for messages failed\<close>
  "detail_query_messages_failed =
   [CHR 0xE6, CHR 0x95, CHR 0xB0, CHR 0xE6, CHR 0x8D, CHR 0xAE, CHR 0xE5, CHR 0xBA, CHR 0x93,
    CHR 0xE6, CHR 0x9F, CHR 0xA5, CHR 0xE8, CHR 0xAF, CHR 0xA2, CHR 0xE6, CHR 0xB6, CHR 0x88,
    CHR 0xE6, CHR 0x81, CHR 0xAF, CHR 0xE5, CHR 0xA4, CHR 0xB1, CHR 0xE8, CHR 0xB4, CHR 0xA5]"

definition detail_unknown_error :: string where
  \<comment> \<open>unknown error\<close>
  "detail_unknown_error =
   [CHR 0xE6, CHR 0x9C, CHR 0xAA, CHR 0xE7, CHR 0x9F, CHR 0xA5, CHR 0xE9, CHR 0x94, CHR 0x99,
    CHR 0xE8, CHR 0xAF, CHR 0xAF]"

definition detail_message_missing :: string where
  \<comment> \<open>message ID does not exist\<close>
  "detail_message_missing =
   [CHR 0xE6, CHR 0xB6, CHR 0x88, CHR 0xE6, CHR 0x81, CHR 0xAF, CHR 0x49, CHR 0x44, CHR 0xE4,
    CHR 0xB8, CHR 0x8D, CHR 0xE5, CHR 0xAD, CHR 0x98, CHR 0xE5, CHR 0x9C, CHR 0xA8]"

definition msg_message_deleted :: string where
  \<comment> \<open>message deleted\<close>
  "msg_message_deleted =
   [CHR 0xE6, CHR 0xB6, CHR 0x88, CHR 0xE6, CHR 0x81, CHR 0xAF, CHR 0xE5, CHR 0xB7, CHR 0xB2,
    CHR 0xE6, CHR 0x88, CHR 0x90, CHR 0xE5, CHR 0x8A, CHR 0x9F, CHR 0xE5, CHR 0x88, CHR 0xA0,
    CHR 0xE9, CHR 0x99, CHR 0xA4]"

definition detail_delete_message_failed :: string where
  \<comment> \<open>database deletion of the message failed\<close>
  "detail_delete_message_failed =
   [CHR 0xE6, CHR 0x95, CHR 0xB0, CHR 0xE6, CHR 0x8D, CHR 0xAE, CHR 0xE5, CHR 0xBA, CHR 0x93,
    CHR 0xE5, CHR 0x88, CHR 0xA0, CHR 0xE9, CHR 0x99, CHR 0xA4, CHR 0xE6, CHR 0xB6, CHR 0x88,
    CHR 0xE6, CHR 0x81, CHR 0xAF, CHR 0xE5, CHR 0xA4, CHR 0xB1, CHR 0xE8, CHR 0xB4, CHR 0xA5]"

definition msg_session_created :: string where
  \<comment> \<open>session created\<close>
  "msg_session_created =
   [CHR 0xE5, CHR 0x88, CHR 0x9B, CHR 0xE5, CHR 0xBB, CHR 0xBA, CHR 0xE4, CHR 0xBC, CHR 0x9A,
    CHR 0xE8, CHR 0xAF, CHR 0x9D, CHR 0xE6, CHR 0x88, CHR 0x90, CHR 0xE5, CHR 0x8A, CHR 0x9F]"

definition detail_integrity :: string where
  \<comment> \<open>the data violates an integrity constraint\<close>
  "detail_integrity =
   [CHR 0xE6, CHR 0x8F, CHR 0x90, CHR 0xE4, CHR 0xBE, CHR 0x9B, CHR 0xE7, CHR 0x9A, CHR 0x84,
    CHR 0xE6, CHR 0x95, CHR 0xB0, CHR 0xE6, CHR 0x8D, CHR 0xAE, CHR 0xE8, CHR 0xBF, CHR 0x9D,
    CHR 0xE5, CHR 0x8F, CHR 0x8D, CHR 0xE4, CHR 0xBA, CHR 0x86, CHR 0xE5, CHR 0xAE, CHR 0x8C,
    CHR 0xE6, CHR 0x95, CHR 0xB4, CHR 0xE6, CHR 0x80, CHR 0xA7, CHR 0xE7, CHR 0xBA, CHR 0xA6,
    CHR 0xE6, CHR 0x9D, CHR 0x9F]"

definition detail_query_failed :: string where
  \<comment> \<open>database query failed\<close>
  "detail_query_failed =
   [CHR 0xE6, CHR 0x95, CHR 0xB0, CHR 0xE6, CHR 0x8D, CHR 0xAE, CHR 0xE5, CHR 0xBA, CHR 0x93,
    CHR 0xE6, CHR 0x9F, CHR 0xA5, CHR 0xE8, CHR 0xAF, CHR 0xA2, CHR 0xE6, CHR 0x89, CHR 0xA7,
    CHR 0xE8, CHR 0xA1, CHR 0x8C, CHR 0xE5, CHR 0xA4, CHR 0xB1, CHR 0xE8, CHR 0xB4, CHR 0xA5]"

definition msg_list_sessions_ok :: string where
  \<comment> \<open>all session ids fetched\<close>
  "msg_list_sessions_ok =
   [CHR 0xE8, CHR 0x8E, CHR 0xB7, CHR 0xE5, CHR 0x8F, CHR 0x96, CHR 0xE6, CHR 0x89, CHR 0x80,
    CHR 0xE6, CHR 0x9C, CHR 0x89, CHR 0xE4, CHR 0xBC, CHR 0x9A, CHR 0xE8, CHR 0xAF, CHR 0x9D,
    CHR 0x69, CHR 0x64, CHR 0xE6, CHR 0x88, CHR 0x90, CHR 0xE5, CHR 0x8A, CHR 0x9F]"

definition detail_db_unavailable :: string where
  \<comment> \<open>database service unavailable\<close>
  "detail_db_unavailable =
   [CHR 0xE6, CHR 0x95, CHR 0xB0, CHR 0xE6, CHR 0x8D, CHR 0xAE, CHR 0xE5, CHR 0xBA, CHR 0x93,
    CHR 0xE6, CHR 0x9C, CHR 0x8D, CHR 0xE5, CHR 0x8A, CHR 0xA1, CHR 0xE4, CHR 0xB8, CHR 0x8D,
    CHR 0xE5, CHR 0x8F, CHR 0xAF, CHR 0xE7, CHR 0x94, CHR 0xA8]"

definition msg_session_deleted :: string where
  \<comment> \<open>session deleted\<close>
  "msg_session_deleted =
   [CHR 0xE4, CHR 0xBC, CHR 0x9A, CHR 0xE8, CHR 0xAF, CHR 0x9D, CHR 0xE5, CHR 0xB7, CHR 0xB2,
    CHR 0xE6, CHR 0x88, CHR 0x90, CHR 0xE5, CHR 0x8A, CHR 0x9F, CHR 0xE5, CHR 0x88, CHR 0xA0,
    CHR 0xE9, CHR 0x99, CHR 0xA4]"

definition detail_delete_session_failed :: string where
  \<comment> \<open>deleting the session failed\<close>
  "detail_delete_session_failed =
   [CHR 0xE5, CHR 0x88, CHR 0xA0, CHR 0xE9, CHR 0x99, CHR 0xA4, CHR 0xE4, CHR 0xBC, CHR 0x9A,
    CHR 0xE8, CHR 0xAF, CHR 0x9D, CHR 0xE5, CHR 0xA4, CHR 0xB1, CHR 0xE8, CHR 0xB4, CHR 0xA5]"

definition txt_api_request_error :: string where
  \<comment> \<open>API request error: \<close>
  "txt_api_request_error =
   [CHR 0x41, CHR 0x50, CHR 0x49, CHR 0x20, CHR 0xE8, CHR 0xAF, CHR 0xB7, CHR 0xE6, CHR 0xB1,
    CHR 0x82, CHR 0xE5, CHR 0xBC, CHR 0x82, CHR 0xE5, CHR 0xB8, CHR 0xB8, CHR 0x3A, CHR 0x20]"

definition txt_error_info :: string where
  \<comment> \<open>, error message: \<close>
  "txt_error_info =
   [CHR 0x2C, CHR 0x20, CHR 0xE9, CHR 0x94, CHR 0x99, CHR 0xE8, CHR 0xAF, CHR 0xAF, CHR 0xE4,
    CHR 0xBF, CHR 0xA1, CHR 0xE6, CHR 0x81, CHR 0xAF, CHR 0x3A, CHR 0x20]"

definition txt_unexpected_error :: string where
  \<comment> \<open>unexpected error: \<close>
  "txt_unexpected_error =
   [CHR 0xE6, CHR 0x9C, CHR 0xAA, CHR 0xE9, CHR 0xA2, CHR 0x84, CHR 0xE6, CHR 0x9C, CHR 0x9F,
    CHR 0xE7, CHR 0x9A, CHR 0x84, CHR 0xE9, CHR 0x94, CHR 0x99, CHR 0xE8, CHR 0xAF, CHR 0xAF,
    CHR 0x3A, CHR 0x20]"


definition txt_internal_db_error :: string where
  \<comment> \<open>internal server error, the database operation could not be completed\<close>
  "txt_internal_db_error =
   [CHR 0xE5, CHR 0x86, CHR 0x85, CHR 0xE9, CHR 0x83, CHR 0xA8, CHR 0xE6, CHR 0x9C, CHR 0x8D,
    CHR 0xE5, CHR 0x8A, CHR 0xA1, CHR 0xE5, CHR 0x99, CHR 0xA8, CHR 0xE9, CHR 0x94, CHR 0x99,
    CHR 0xE8, CHR 0xAF, CHR 0xAF, CHR 0xEF, CHR 0xBC, CHR 0x8C, CHR 0xE6, CHR 0x97, CHR 0xA0,
    CHR 0xE6, CHR 0xB3, CHR 0x95, CHR 0xE5, CHR 0xAE, CHR 0x8C, CHR 0xE6, CHR 0x88, CHR 0x90,
    CHR 0xE6, CHR 0x95, CHR 0xB0, CHR 0xE6, CHR 0x8D, CHR 0xAE, CHR 0xE5, CHR 0xBA, CHR 0x93,
    CHR 0xE6, CHR 0x93, CHR 0x8D, CHR 0xE4, CHR 0xBD, CHR 0x9C]"

definition txt_server_unknown_error :: string where
  \<comment> \<open>unknown server error\<close>
  "txt_server_unknown_error =
   [CHR 0xE6, CHR 0x9C, CHR 0x8D, CHR 0xE5, CHR 0x8A, CHR 0xA1, CHR 0xE5, CHR 0x99, CHR 0xA8,
    CHR 0xE6, CHR 0x9C, CHR 0xAA, CHR 0xE7, CHR 0x9F, CHR 0xA5, CHR 0xE9, CHR 0x94, CHR 0x99,
    CHR 0xE8, CHR 0xAF, CHR 0xAF]"
section \<open>Data model (models.py)\<close>

text \<open>
  \<open>Session.id\<close> and \<open>Message.id\<close> are the integer primary keys. The \<open>message\<close> column
  holds the Python value the handler put there: the user's text, or whatever the completion
  API returned under \<open>content\<close>. The timestamp is a reading of the clock.
\<close>

record Session =
  sess_id :: int
  active :: bool
  name :: "string option"

record Message =
  msg_id :: int
  session_id :: int
  character_name :: string
  message :: json
  timestamp :: int
  is_deleted :: bool

text \<open>
  The two tables, each in the order of its rows in the store. A query without
  \<^verbatim>\<open>ORDER BY\<close> reads a table in this order.
\<close>

record database =
  sessions :: "Session list"
  messages :: "Message list"

definition init_db :: database where
  "init_db = \<lparr>sessions = [], messages = []\<rparr>"

text \<open>
  The store itself (SQLite behind SQLAlchemy) is not part of the source. What the handlers
  rely on is taken from its documented behaviour: a new row of a table with an integer
  primary key gets the key 1 in an empty table and one more than the largest key otherwise,
  and is placed behind the rows already there.
\<close>

definition next_id :: "int list \<Rightarrow> int" where
  "next_id ids = (if ids = [] then 1 else Max (set ids) + 1)"

text \<open>
  A request can fail in the store at any call on the database session. \<open>flt k\<close> is the
  exception raised by the \<open>k\<close>-th such call of the request (counted from 0), if any.
\<close>

type_synonym store_faults = "nat \<Rightarrow> py_exc option"

definition no_faults :: store_faults where
  "no_faults = (\<lambda>k. None)"

text \<open>
  The routes take a Python \<open>int\<close> of any size as an id, and the store binds integers as
  signed 64-bit values. A query that is given an id outside that range raises
  \<open>OverflowError\<close> in the driver before any row is looked at; this is no
  \<open>SQLAlchemyError\<close>. \<open>execute_with fault i\<close> is the exception raised by a query that
  binds the id \<open>i\<close>: the fault of the store at this call if there is one, the overflow
  otherwise.
\<close>

definition int64 :: "int \<Rightarrow> bool" where
  "int64 i \<longleftrightarrow> - (2 ^ 63) \<le> i \<and> i < 2 ^ 63"

definition execute_with :: "py_exc option \<Rightarrow> int \<Rightarrow> py_exc option" where
  "execute_with fault i =
     (case fault of
        Some e \<Rightarrow> Some e
      | None \<Rightarrow> if int64 i then None else Some OverflowError)"

section \<open>Session operations (crud/session\_crud.py)\<close>

text \<open>
  \<open>create_session\<close> calls the store for the commit of the new row (call 0) and for its
  refresh (call 1); \<open>list_sessions\<close> for its one query; \<open>delete_session\<close> for the query
  (call 0) and for the commit of the update of \<open>active\<close> in the row with the key of the
  session found (call 1).
\<close>

definition create_session ::
  "store_faults \<Rightarrow> string option \<Rightarrow> database \<Rightarrow> (http_exception + json_response) \<times> database" where
  "create_session flt name' db =
     (let except = (\<lambda>e.
            if e = IntegrityError then HTTPException 400 detail_integrity
            else if isinstance_SQLAlchemyError e then HTTPException 500 detail_query_failed
            else HTTPException 500 detail_unknown_error)
      in case flt 0 of
           Some e \<Rightarrow> (Inl (except e), db)
         | None \<Rightarrow>
             let new_session = \<lparr>sess_id = next_id (map sess_id (sessions db)),
                                active = True, name = name'\<rparr>;
                 db' = db\<lparr>sessions := sessions db @ [new_session]\<rparr>
             in (case flt 1 of
                   Some e \<Rightarrow> (Inl (except e), db')
                 | None \<Rightarrow>
                     (Inr (JSONResponse 201 (JDict
                        [(''message'', JStr msg_session_created),
                         (''session_id'', JInt (sess_id new_session)),
                         (''session_name'',
                            (case name new_session of None \<Rightarrow> JNull | Some n \<Rightarrow> JStr n))])),
                      db')))"

definition list_sessions :: "store_faults \<Rightarrow> database \<Rightarrow> http_exception + json_response" where
  "list_sessions flt db =
     (case flt 0 of
        Some e \<Rightarrow>
          Inl (if e = OperationalError then HTTPException 503 detail_db_unavailable
               else if isinstance_SQLAlchemyError e then HTTPException 500 detail_query_failed
               else HTTPException 500 detail_unknown_error)
      | None \<Rightarrow>
          Inr (JSONResponse 200 (JDict
            [(''message'', JStr msg_list_sessions_ok),
             (''sessions'', JList (map (\<lambda>s. JDict
                 [(''session_id'', JInt (sess_id s)),
                  (''session_name'', (case name s of None \<Rightarrow> JNull | Some n \<Rightarrow> JStr n))])
                 (filter (\<lambda>s. active s) (sessions db))))])))"

definition delete_session ::
  "store_faults \<Rightarrow> int \<Rightarrow> database \<Rightarrow> (http_exception + json_response) \<times> database" where
  "delete_session flt session_id' db =
     (let except = (\<lambda>e.
            if isinstance_SQLAlchemyError e then HTTPException 500 detail_query_failed
            else HTTPException 500 detail_delete_session_failed)
      in case execute_with (flt 0) session_id' of
           Some e \<Rightarrow> (Inl (except e), db)
         | None \<Rightarrow>
             (case find (\<lambda>s. sess_id s = session_id') (sessions db) of
                None \<Rightarrow> (Inl (HTTPException 404 detail_session_missing), db)
              | Some session \<Rightarrow>
                  (case flt 1 of
                     Some e \<Rightarrow> (Inl (except e), db)
                   | None \<Rightarrow>
                       (Inr (JSONResponse 200 (JDict [(''message'', JStr msg_session_deleted)])),
                        db\<lparr>sessions :=
                             map (\<lambda>s. if sess_id s = sess_id session then s\<lparr>active := False\<rparr> else s)
                                 (sessions db)\<rparr>))))"

section \<open>Completion client (use\_api.py)\<close>

record request =
  url :: string
  headers :: "(string \<times> string) list"
  json_body :: "(string \<times> json) list"

text \<open>
  The payload both clients build: the dictionary with all seven keys, \<open>None\<close> for an
  argument left out, then the comprehension that keeps the entries whose value is not
  \<open>None\<close>.
\<close>

definition remove_none :: "(string \<times> json option) list \<Rightarrow> (string \<times> json) list" where
  "remove_none kvs = concat (map (\<lambda>(k, v). case v of None \<Rightarrow> [] | Some x \<Rightarrow> [(k, x)]) kvs)"

definition payload ::
  "string \<Rightarrow> json list \<Rightarrow> real option \<Rightarrow> int option \<Rightarrow> real option \<Rightarrow> real option \<Rightarrow>
   real option \<Rightarrow> (string \<times> json) list" where
  "payload model' messages' temperature max_tokens top_p frequency_penalty presence_penalty =
     remove_none
       [(''model'', Some (JStr model')),
        (''messages'', Some (JList messages')),
        (''temperature'', map_option JFloat temperature),
        (''max_tokens'', map_option JInt max_tokens),
        (''top_p'', map_option JFloat top_p),
        (''frequency_penalty'', map_option JFloat frequency_penalty),
        (''presence_penalty'', map_option JFloat presence_penalty)]"

definition make_request ::
  "string \<Rightarrow> string \<Rightarrow> (string \<times> json) list \<Rightarrow> request" where
  "make_request api_url api_key' body =
     \<lparr>url = api_url,
      headers = [(''Content-Type'', ''application/json''),
                 (''Authorization'', ''Bearer '' @ api_key')],
      json_body = body\<rparr>"

text \<open>
  How a POST of the synchronous client ends: \<^verbatim>\<open>raise_for_status\<close> raised
  \<open>HTTPError\<close> (with the status code and the text of the response), the exchange raised
  another \<open>RequestException\<close> or another exception (with its text), or the body was
  decoded.
\<close>

datatype requests_outcome =
    RaisedHTTPError int string
  | RaisedRequestException string
  | RaisedException string
  | ReturnedJson json

text \<open>The same for the asynchronous client and the exception classes of aiohttp.\<close>

datatype aiohttp_outcome =
    RaisedClientResponseError int string
  | RaisedClientError string
  | RaisedOther string
  | Returned json

text \<open>What a handler does to the outside, in the order it does it.\<close>

datatype event = ApiPost request | DbCommit "Message list"

definition call_openai_chat_api ::
  "string \<Rightarrow> (request \<Rightarrow> requests_outcome) \<Rightarrow> string \<Rightarrow> json list \<Rightarrow> string \<Rightarrow>
   real option \<Rightarrow> int option \<Rightarrow> real option \<Rightarrow> real option \<Rightarrow> real option \<Rightarrow>
   (http_exception + json) \<times> event list" where
  "call_openai_chat_api api_url post model' messages' api_key'
       temperature max_tokens top_p frequency_penalty presence_penalty =
     (let req = make_request api_url api_key'
                  (payload model' messages' temperature max_tokens top_p
                     frequency_penalty presence_penalty)
      in (case post req of
            ReturnedJson body \<Rightarrow> Inr body
          | RaisedHTTPError code text' \<Rightarrow> Inl (HTTPException code text')
          | RaisedRequestException re \<Rightarrow>
              Inl (HTTPException 400 (txt_api_request_error @ model' @ txt_error_info @ re))
          | RaisedException e \<Rightarrow>
              Inl (HTTPException 500 (txt_unexpected_error @ model' @ txt_error_info @ e)),
          [ApiPost req]))"

definition async_call_openai_chat_api ::
  "string \<Rightarrow> (request \<Rightarrow> aiohttp_outcome) \<Rightarrow> string \<Rightarrow> json list \<Rightarrow> string \<Rightarrow>
   real option \<Rightarrow> int option \<Rightarrow> real option \<Rightarrow> real option \<Rightarrow> real option \<Rightarrow>
   (http_exception + json) \<times> event list" where
  "async_call_openai_chat_api api_url post model' messages' api_key'
       temperature max_tokens top_p frequency_penalty presence_penalty =
     (let req = make_request api_url api_key'
                  (payload model' messages' temperature max_tokens top_p
                     frequency_penalty presence_penalty)
      in (case post req of
            Returned body \<Rightarrow> Inr body
          | RaisedClientResponseError code msg \<Rightarrow> Inl (HTTPException code msg)
          | RaisedClientError ce \<Rightarrow>
              Inl (HTTPException 400 (txt_api_request_error @ model' @ txt_error_info @ ce))
          | RaisedOther e \<Rightarrow>
              Inl (HTTPException 500 (txt_unexpected_error @ model' @ txt_error_info @ e)),
          [ApiPost req]))"

section \<open>Message operations (crud/message\_crud.py)\<close>

record ChatSchema =
  chat_session_id :: int
  user_message :: string

record config =
  api_url :: string
  api_key :: string
  model_name :: string

text \<open>
  Python's subscription on a decoded JSON value: \<open>obj[k]\<close> with a string key, and
  \<open>obj[0]\<close>. A dictionary decoded from JSON has string keys only, so \<open>d[0]\<close> is a
  \<open>KeyError\<close>; \<open>s[0]\<close> on a string is its first code point.
\<close>

fun getitem_str :: "json \<Rightarrow> string \<Rightarrow> py_exc + json" where
  "getitem_str (JDict kvs) k = (case map_of kvs k of None \<Rightarrow> Inl KeyError | Some v \<Rightarrow> Inr v)"
| "getitem_str _ k = Inl TypeError"

definition utf8_width :: "char \<Rightarrow> nat" where
  "utf8_width c =
     (let b = (of_char c :: nat)
      in if b < 0x80 then 1 else if b < 0xE0 then 2 else if b < 0xF0 then 3 else 4)"

fun getitem_0 :: "json \<Rightarrow> py_exc + json" where
  "getitem_0 (JList []) = Inl IndexError"
| "getitem_0 (JList (x # xs)) = Inr x"
| "getitem_0 (JStr []) = Inl IndexError"
| "getitem_0 (JStr (c # cs)) = Inr (JStr (take (utf8_width c) (c # cs)))"
| "getitem_0 (JDict kvs) = Inl KeyError"
| "getitem_0 _ = Inl TypeError"

text \<open>\<^verbatim>\<open>response['choices'][0]['message']['content']\<close>\<close>

definition response_content :: "json \<Rightarrow> py_exc + json" where
  "response_content response =
     (case getitem_str response ''choices'' of
        Inl e \<Rightarrow> Inl e
      | Inr choices \<Rightarrow>
          (case getitem_0 choices of
             Inl e \<Rightarrow> Inl e
           | Inr choice \<Rightarrow>
               (case getitem_str choice ''message'' of
                  Inl e \<Rightarrow> Inl e
                | Inr msg \<Rightarrow> getitem_str msg ''content'')))"

text \<open>The history sent to the completion API for a chat request.\<close>

definition chat_history :: "ChatSchema \<Rightarrow> database \<Rightarrow> json list" where
  "chat_history chat_schema db =
     map (\<lambda>msg. JDict
            [(''role'', JStr (if character_name msg = ''assistant'' then ''system'' else ''user'')),
             (''content'', message msg)])
         (filter (\<lambda>msg. session_id msg = chat_session_id chat_schema \<and> \<not> is_deleted msg)
                 (messages db))
     @ [JDict [(''role'', JStr ''user''), (''content'', JStr (user_message chat_schema))]]"

text \<open>
  The request a chat turn posts: \<open>async_call_openai_chat_api\<close> is called with the model
  name and the key of the configuration, the history, and no optional parameter.
\<close>

definition chat_request :: "config \<Rightarrow> ChatSchema \<Rightarrow> database \<Rightarrow> request" where
  "chat_request cfg chat_schema db =
     make_request (api_url cfg) (api_key cfg)
       (payload (model_name cfg) (chat_history chat_schema db) None None None None None)"

text \<open>
  The body of the \<^verbatim>\<open>try\<close> block of \<open>chat_with_openai\<close>. The store is called four
  times: the query for the history (call 0), the commit of the two new rows (call 1), and
  the refresh of the assistant's row (call 2) and of the user's row (call 3). The rows are
  inserted in the order in which they were added to the database session, the user's first;
  \<open>utcnow k\<close> is the clock read for the default timestamp of the \<open>k\<close>-th row inserted.
  A commit that raises leaves the store as it was. The result is what the block returns
  or raises, the store afterwards, and what the handler did to the outside. Whatever makes
  the query raise, a session id that the store cannot bind included, is a fault of call 0
  here; the row of the reply keeps the value found under \<open>content\<close> as the handler
  passes it on.
\<close>

definition chat_with_openai_try ::
  "config \<Rightarrow> (request \<Rightarrow> aiohttp_outcome) \<Rightarrow> store_faults \<Rightarrow> (nat \<Rightarrow> int) \<Rightarrow> ChatSchema \<Rightarrow>
   database \<Rightarrow> (raised + json_response) \<times> database \<times> event list" where
  "chat_with_openai_try cfg post flt utcnow chat_schema db =
     (case flt 0 of
        Some e \<Rightarrow> (Inl (Exc e), db, [])
      | None \<Rightarrow>
          (case async_call_openai_chat_api (api_url cfg) post (model_name cfg)
                  (chat_history chat_schema db) (api_key cfg) None None None None None of
             (Inl he, evs) \<Rightarrow> (Inl (Http he), db, evs)
           | (Inr response, evs) \<Rightarrow>
               (case response_content response of
                  Inl e \<Rightarrow> (Inl (Exc e), db, evs)
                | Inr ai_message \<Rightarrow>
                    (case flt 1 of
                       Some e \<Rightarrow> (Inl (Exc e), db, evs)
                     | None \<Rightarrow>
                         let user_id = next_id (map msg_id (messages db));
                             user_msg =
                               \<lparr>msg_id = user_id,
                                session_id = chat_session_id chat_schema,
                                character_name = ''user'',
                                message = JStr (user_message chat_schema),
                                timestamp = utcnow 0, is_deleted = False\<rparr>;
                             ai_id = next_id (map msg_id (messages db @ [user_msg]));
                             ai_msg =
                               \<lparr>msg_id = ai_id,
                                session_id = chat_session_id chat_schema,
                                character_name = ''assistant'',
                                message = ai_message,
                                timestamp = utcnow 1, is_deleted = False\<rparr>;
                             db' = db\<lparr>messages := messages db @ [user_msg, ai_msg]\<rparr>;
                             evs' = evs @ [DbCommit [user_msg, ai_msg]]
                         in (case flt 2 of
                               Some e \<Rightarrow> (Inl (Exc e), db', evs')
                             | None \<Rightarrow>
                                 (case flt 3 of
                                    Some e \<Rightarrow> (Inl (Exc e), db', evs')
                                  | None \<Rightarrow>
                                      (Inr (JSONResponse 200 (JDict
                                         [(''message'', JStr msg_chat_ok),
                                          (''ai_message_id'', JInt (msg_id ai_msg)),
                                          (''user_message_id'', JInt (msg_id user_msg)),
                                          (''response'', ai_message),
                                          (''character_name'', JStr ''assistant'')])),
                                       db', evs')))))))"

text \<open>The \<^verbatim>\<open>except\<close> clauses of \<open>chat_with_openai\<close>, in their order.\<close>

definition chat_with_openai ::
  "config \<Rightarrow> (request \<Rightarrow> aiohttp_outcome) \<Rightarrow> store_faults \<Rightarrow> (nat \<Rightarrow> int) \<Rightarrow> ChatSchema \<Rightarrow>
   database \<Rightarrow> (http_exception + json_response) \<times> database \<times> event list" where
  "chat_with_openai cfg post flt utcnow chat_schema db =
     (case chat_with_openai_try cfg post flt utcnow chat_schema db of
        (Inr resp, db', evs) \<Rightarrow> (Inr resp, db', evs)
      | (Inl (Http he), db', evs) \<Rightarrow> (Inl he, db', evs)
      | (Inl (Exc e), db', evs) \<Rightarrow>
          (Inl (if isinstance_SQLAlchemyError e \<or> e = KeyError
                then HTTPException 500 detail_db_or_api_failed
                else HTTPException 500 detail_openai_unexpected),
           db', evs))"

text \<open>
  \<open>get_messages\<close> calls the store twice: the query for the session (call 0) and the query
  for its messages (call 1).
\<close>

definition get_messages :: "store_faults \<Rightarrow> int \<Rightarrow> database \<Rightarrow> http_exception + json_response" where
  "get_messages flt session_id' db =
     (let except = (\<lambda>e.
            if isinstance_SQLAlchemyError e then HTTPException 500 detail_query_messages_failed
            else HTTPException 500 detail_unknown_error)
      in case execute_with (flt 0) session_id' of
           Some e \<Rightarrow> Inl (except e)
         | None \<Rightarrow>
             (case find (\<lambda>s. sess_id s = session_id') (sessions db) of
                None \<Rightarrow> Inl (HTTPException 404 detail_session_missing)
              | Some session_exists \<Rightarrow>
                  (case flt 1 of
                     Some e \<Rightarrow> Inl (except e)
                   | None \<Rightarrow>
                       Inr (JSONResponse 200 (JDict
                         [(''message'', JStr msg_get_messages_ok),
                          (''messages'', JList (map (\<lambda>m. JDict
                              [(''id'', JInt (msg_id m)),
                               (''character_name'', JStr (character_name m)),
                               (''message'', message m)])
                              (filter (\<lambda>m. session_id m = session_id' \<and> \<not> is_deleted m)
                                      (messages db))))])))))"

text \<open>
  \<open>delete_message\<close> calls the store for the query (call 0) and, when the message is not yet
  marked, for the commit of the update of \<open>is_deleted\<close> in the row with the key of the
  message found (call 1).
\<close>

definition delete_message ::
  "store_faults \<Rightarrow> int \<Rightarrow> database \<Rightarrow> (http_exception + json_response) \<times> database" where
  "delete_message flt message_id db =
     (let except = (\<lambda>e.
            if isinstance_SQLAlchemyError e then HTTPException 500 detail_delete_message_failed
            else HTTPException 500 detail_unknown_error);
          ok = JSONResponse 200 (JDict [(''message'', JStr msg_message_deleted)])
      in case execute_with (flt 0) message_id of
           Some e \<Rightarrow> (Inl (except e), db)
         | None \<Rightarrow>
             (case find (\<lambda>m. msg_id m = message_id) (messages db) of
                None \<Rightarrow> (Inl (HTTPException 404 detail_message_missing), db)
              | Some msg \<Rightarrow>
                  if is_deleted msg then (Inr ok, db)
                  else
                    (case flt 1 of
                       Some e \<Rightarrow> (Inl (except e), db)
                     | None \<Rightarrow>
                         (Inr ok,
                          db\<lparr>messages :=
                               map (\<lambda>m. if msg_id m = msg_id msg then m\<lparr>is_deleted := True\<rparr> else m)
                                   (messages db)\<rparr>))))"

section \<open>Exception handlers of the application (main.py)\<close>

text \<open>
  \<open>tb\<close> is \<^verbatim>\<open>traceback.format_exc().splitlines()\<close>: the lines of the traceback of
  the exception being handled. \<open>exc_text\<close> is \<^verbatim>\<open>str(exc)\<close>.
\<close>

definition sqlalchemy_exception_handler :: "string list \<Rightarrow> string \<Rightarrow> json_response" where
  "sqlalchemy_exception_handler tb exc_text =
     JSONResponse 500 (JDict
       [(''message'', JStr (txt_internal_db_error @ exc_text)),
        (''exception_detail'', JList (map JStr tb))])"


definition exception_handler :: "string list \<Rightarrow> string \<Rightarrow> json_response" where
  "exception_handler tb exc_text =
     JSONResponse 500 (JDict
       [(''message'', JStr (txt_server_unknown_error @ exc_text)),
        (''exception_detail'', JList (map JStr tb))])"


section \<open>Well-formed stores\<close>

text \<open>
  The primary keys of each table grow along the table: the store hands out keys with
  \<open>next_id\<close> and no handler removes a row or changes a key.
\<close>

definition db_inv :: "database \<Rightarrow> bool" where
  "db_inv db \<longleftrightarrow>
     sorted_wrt (<) (map sess_id (sessions db)) \<and> sorted_wrt (<) (map msg_id (messages db))"

text \<open>
  The stores the handlers can produce, starting from the empty store that \<open>init_db\<close>
  creates, under any inputs, any answers of the completion API and any store faults.
\<close>

inductive reachable :: "database \<Rightarrow> bool" where
  reachable_init: "reachable init_db"
| reachable_create_session:
    "reachable db \<Longrightarrow> reachable (snd (create_session flt name' db))"
| reachable_delete_session:
    "reachable db \<Longrightarrow> reachable (snd (delete_session flt session_id' db))"
| reachable_delete_message:
    "reachable db \<Longrightarrow> reachable (snd (delete_message flt message_id db))"
| reachable_chat:
    "reachable db \<Longrightarrow>
     reachable (fst (snd (chat_with_openai cfg post flt utcnow chat_schema db)))"

section \<open>Example inputs\<close>

definition example_cfg :: config where
  "example_cfg = \<lparr>api_url = ''http://localhost/v1/chat/completions'', api_key = ''sk'',
                   model_name = ''gpt''\<rparr>"

definition example_body :: json where
  "example_body =
     JDict [(''choices'', JList [JDict [(''message'',
        JDict [(''role'', JStr ''assistant''), (''content'', JStr ''world'')])]])]"

definition example_db :: database where
  "example_db =
     \<lparr>sessions = [\<lparr>sess_id = 1, active = True, name = Some ''Test''\<rparr>,
                  \<lparr>sess_id = 2, active = False, name = None\<rparr>],
      messages = [\<lparr>msg_id = 1, session_id = 1, character_name = ''user'',
                    message = JStr ''hello'', timestamp = 10, is_deleted = False\<rparr>,
                  \<lparr>msg_id = 2, session_id = 1, character_name = ''assistant'',
                    message = JStr ''world'', timestamp = 11, is_deleted = False\<rparr>,
                  \<lparr>msg_id = 3, session_id = 2, character_name = ''user'',
                    message = JStr ''bye'', timestamp = 12, is_deleted = True\<rparr>,
                  \<lparr>msg_id = 4, session_id = 1, character_name = ''user'',
                    message = JStr ''again'', timestamp = 13, is_deleted = True\<rparr>]\<rparr>"


text \<open>A completion API that answers every request with an error object.\<close>

definition example_post_error :: "request \<Rightarrow> aiohttp_outcome" where
  "example_post_error r = Returned (JDict [(''error'', JStr ''overloaded'')])"

text \<open>A completion API that answers every request with one choice.\<close>

definition example_post_ok :: "request \<Rightarrow> aiohttp_outcome" where
  "example_post_ok r = Returned example_body"

section \<open>Keys and the invariant of the store\<close>

lemma next_id_gt: "x \<in> set ids \<Longrightarrow> x < next_id ids"
proof -
  assume a: "x \<in> set ids"
  then have "ids \<noteq> []" by auto
  moreover have "x \<le> Max (set ids)" using a by (simp add: Max_ge)
  ultimately show ?thesis by (simp add: next_id_def)
qed

lemma sorted_append_next_id:
  "sorted_wrt (<) ids \<Longrightarrow> sorted_wrt (<) (ids @ [next_id ids])"
  by (simp add: sorted_wrt_append next_id_gt)


lemma db_inv_init: "db_inv init_db"
  by (simp add: db_inv_def init_db_def)

lemma create_session_inv:
  "db_inv db \<Longrightarrow> db_inv (snd (create_session flt nm db))"
  by (auto simp: create_session_def db_inv_def Let_def sorted_append_next_id split: option.splits)

lemma sess_id_deactivate:
  "sess_id \<circ> (\<lambda>s. if P s then s\<lparr>active := False\<rparr> else s) = sess_id"
  by (auto simp: fun_eq_iff)

lemma delete_session_inv:
  "db_inv db \<Longrightarrow> db_inv (snd (delete_session flt sid db))"
  by (auto simp: delete_session_def db_inv_def Let_def sess_id_deactivate split: option.splits)

lemma msg_id_mark:
  "msg_id \<circ> (\<lambda>m. if P m then m\<lparr>is_deleted := True\<rparr> else m) = msg_id"
  by (auto simp: fun_eq_iff)

lemma delete_message_inv:
  "db_inv db \<Longrightarrow> db_inv (snd (delete_message flt mid db))"
  by (auto simp: delete_message_def db_inv_def Let_def msg_id_mark split: option.splits)

lemma sorted_append_two:
  "sorted_wrt (<) ids \<Longrightarrow> sorted_wrt (<) (ids @ [next_id ids, next_id (ids @ [next_id ids])])"
  using sorted_append_next_id[of "ids @ [next_id ids]"] sorted_append_next_id[of ids] by simp

lemma chat_with_openai_inv:
  "db_inv db \<Longrightarrow> db_inv (fst (snd (chat_with_openai cfg post flt utcnow cs db)))"
  using sorted_append_two[of "map msg_id (messages db)"]
  by (auto simp: chat_with_openai_def chat_with_openai_try_def async_call_openai_chat_api_def
        db_inv_def Let_def
      split: option.splits sum.splits aiohttp_outcome.splits prod.splits raised.splits)

text \<open>Every store the handlers can produce is well-formed.\<close>

lemma reachable_db_inv: "reachable db \<Longrightarrow> db_inv db"
proof (induction rule: reachable.induct)
  case reachable_init
  show ?case by (rule db_inv_init)
next
  case (reachable_create_session db flt name')
  then show ?case by (simp add: create_session_inv)
next
  case (reachable_delete_session db flt session_id')
  then show ?case by (simp add: delete_session_inv)
next
  case (reachable_delete_message db flt message_id)
  then show ?case by (simp add: delete_message_inv)
next
  case (reachable_chat db cfg post flt utcnow chat_schema)
  then show ?case by (simp add: chat_with_openai_inv)
qed

lemma int64_small: "int64 1" "int64 2" "int64 4" "int64 5" "int64 9"
  by (simp_all add: int64_def)

lemma db_inv_example: "db_inv example_db"
  by (simp add: db_inv_def example_db_def)

section \<open>Listing the messages of a session\<close>

lemma find_sess_None_iff:
  "(find (\<lambda>s. sess_id s = sid) ss = None) \<longleftrightarrow> (\<forall>s\<in>set ss. sess_id s \<noteq> sid)"
  by (auto simp: find_None_iff)

lemma sorted_wrt_filter_map:
  "sorted_wrt (<) (map f xs) \<Longrightarrow> sorted_wrt (<) (map f (filter P xs))"
  by (induction xs) auto

text \<open>
  Claim C3, for the ids the store can bind. When the store does not fail and the session id
  is in the signed 64-bit range, \<open>get_messages\<close> first looks the session up and answers 404
  when no session has the id. Otherwise it answers 200 with the rows of the \<open>messages\<close>
  table that belong to the session and are not marked deleted, each exactly once, in
  ascending order of their ids. The order comes from the store: the query has no ordering
  clause of its own, the table is read in its own order, and in a well-formed store that
  order is the order of the keys.
\<close>

theorem get_messages_spec:
  assumes "db_inv db" and range: "int64 sid"
  shows "\<exists>rows.
           get_messages no_faults sid db =
             (if \<exists>s\<in>set (sessions db). sess_id s = sid
              then Inr (JSONResponse 200 (JDict
                     [(''message'', JStr msg_get_messages_ok),
                      (''messages'', JList (map (\<lambda>m. JDict
                          [(''id'', JInt (msg_id m)),
                           (''character_name'', JStr (character_name m)),
                           (''message'', message m)]) rows))]))
              else Inl (HTTPException 404 detail_session_missing))
         \<and> set rows = {m \<in> set (messages db). session_id m = sid \<and> \<not> is_deleted m}
         \<and> sorted_wrt (<) (map msg_id rows)"
proof -
  let ?rows = "filter (\<lambda>m. session_id m = sid \<and> \<not> is_deleted m) (messages db)"
  have sorted: "sorted_wrt (<) (map msg_id ?rows)"
    using assms(1) by (simp add: db_inv_def sorted_wrt_filter_map)
  have res: "get_messages no_faults sid db =
             (if \<exists>s\<in>set (sessions db). sess_id s = sid
              then Inr (JSONResponse 200 (JDict
                     [(''message'', JStr msg_get_messages_ok),
                      (''messages'', JList (map (\<lambda>m. JDict
                          [(''id'', JInt (msg_id m)),
                           (''character_name'', JStr (character_name m)),
                           (''message'', message m)]) ?rows))]))
              else Inl (HTTPException 404 detail_session_missing))"
  proof (cases "find (\<lambda>s. sess_id s = sid) (sessions db)")
    case None
    then have "\<not> (\<exists>s\<in>set (sessions db). sess_id s = sid)"
      by (auto simp: find_None_iff)
    with None show ?thesis
      by (simp add: get_messages_def no_faults_def execute_with_def range)
  next
    case (Some s)
    then have "\<exists>s\<in>set (sessions db). sess_id s = sid"
      by (metis find_sess_None_iff option.distinct(1))
    with Some show ?thesis
      by (simp add: get_messages_def no_faults_def execute_with_def range)
  qed
  have "set ?rows = {m \<in> set (messages db). session_id m = sid \<and> \<not> is_deleted m}"
    by auto
  with res sorted show ?thesis by blast
qed

theorem get_messages_spec_witness:
  "db_inv example_db \<and> int64 1
   \<and> get_messages no_faults 1 example_db
       = Inr (JSONResponse 200 (JDict
           [(''message'', JStr msg_get_messages_ok),
            (''messages'', JList
               [JDict [(''id'', JInt 1), (''character_name'', JStr ''user''),
                       (''message'', JStr ''hello'')],
                JDict [(''id'', JInt 2), (''character_name'', JStr ''assistant''),
                       (''message'', JStr ''world'')]])]))
   \<and> (\<exists>rows.
         get_messages no_faults 1 example_db
           = Inr (JSONResponse 200 (JDict
               [(''message'', JStr msg_get_messages_ok),
                (''messages'', JList (map (\<lambda>m. JDict
                    [(''id'', JInt (msg_id m)),
                     (''character_name'', JStr (character_name m)),
                     (''message'', message m)]) rows))]))
       \<and> set rows = {m \<in> set (messages example_db). session_id m = 1 \<and> \<not> is_deleted m}
       \<and> sorted_wrt (<) (map msg_id rows))"
proof -
  have h: "db_inv example_db"
    by (simp add: db_inv_def example_db_def)
  have ex: "\<exists>s\<in>set (sessions example_db). sess_id s = 1"
    by (simp add: example_db_def)
  have run: "get_messages no_faults 1 example_db
       = Inr (JSONResponse 200 (JDict
           [(''message'', JStr msg_get_messages_ok),
            (''messages'', JList
               [JDict [(''id'', JInt 1), (''character_name'', JStr ''user''),
                       (''message'', JStr ''hello'')],
                JDict [(''id'', JInt 2), (''character_name'', JStr ''assistant''),
                       (''message'', JStr ''world'')]])]))"
    by (simp add: get_messages_def no_faults_def execute_with_def int64_def example_db_def)
  from get_messages_spec[OF h int64_small(1)] ex
  have "\<exists>rows.
         get_messages no_faults 1 example_db
           = Inr (JSONResponse 200 (JDict
               [(''message'', JStr msg_get_messages_ok),
                (''messages'', JList (map (\<lambda>m. JDict
                    [(''id'', JInt (msg_id m)),
                     (''character_name'', JStr (character_name m)),
                     (''message'', message m)]) rows))]))
       \<and> set rows = {m \<in> set (messages example_db). session_id m = 1 \<and> \<not> is_deleted m}
       \<and> sorted_wrt (<) (map msg_id rows)"
    by (simp only: if_True)
  with h int64_small(1) run show ?thesis by blast
qed

section \<open>Soft deletion of a message\<close>

lemma find_mark_deleted:
  "find (\<lambda>m. msg_id m = mid) (map (\<lambda>m. if msg_id m = mid then m\<lparr>is_deleted := True\<rparr> else m) ms)
     = map_option (\<lambda>m. m\<lparr>is_deleted := True\<rparr>) (find (\<lambda>m. msg_id m = mid) ms)"
  by (induction ms) auto

lemma filter_mark_deleted:
  "filter (\<lambda>m. session_id m = sid \<and> \<not> is_deleted m)
          (map (\<lambda>m. if msg_id m = mid then m\<lparr>is_deleted := True\<rparr> else m) ms)
     = filter (\<lambda>m. session_id m = sid \<and> \<not> is_deleted m) (filter (\<lambda>m. msg_id m \<noteq> mid) ms)"
  by (induction ms) auto

lemma filter_already_deleted:
  "\<forall>m\<in>set ms. msg_id m = mid \<longrightarrow> is_deleted m \<Longrightarrow>
   filter (\<lambda>m. session_id m = sid \<and> \<not> is_deleted m) (filter (\<lambda>m. msg_id m \<noteq> mid) ms)
     = filter (\<lambda>m. session_id m = sid \<and> \<not> is_deleted m) ms"
  by (induction ms) auto

lemma find_Some_props:
  "find P xs = Some x \<Longrightarrow> x \<in> set xs \<and> P x"
  by (auto simp: find_Some_iff)

lemma key_unique:
  assumes "sorted_wrt (<) (map msg_id ms)" and "m \<in> set ms" and "m' \<in> set ms"
    and "msg_id m' = msg_id m"
  shows "m' = m"
proof -
  have "distinct (map msg_id ms)"
    using assms(1) strict_sorted_iff by blast
  then have "inj_on msg_id (set ms)"
    by (simp add: distinct_map)
  with assms(2-4) show ?thesis
    by (auto dest: inj_onD)
qed

lemma get_messages_cong:
  "sessions db' = sessions db \<Longrightarrow>
   filter (\<lambda>m. session_id m = sid \<and> \<not> is_deleted m) (messages db')
     = filter (\<lambda>m. session_id m = sid \<and> \<not> is_deleted m) (messages db) \<Longrightarrow>
   get_messages flt sid db' = get_messages flt sid db"
  by (simp add: get_messages_def split: option.splits)

text \<open>
  Claim C4, for the ids the store can bind. In a well-formed store without faults, and for a
  message id in the signed 64-bit range, \<open>delete_message\<close> on an id that no message has
  answers 404 and changes nothing. On the id of an existing message it answers 200 and the
  message is then marked deleted; a second call on the same id answers 200 again and leaves
  the store as the first call left it; and after the first call every listing of messages is
  the listing of a store that does not hold this message at all.
\<close>

theorem delete_message_idempotent:
  assumes inv: "db_inv db" and range: "int64 mid"
  shows "case find (\<lambda>m. msg_id m = mid) (messages db) of
           None \<Rightarrow>
             delete_message no_faults mid db
               = (Inl (HTTPException 404 detail_message_missing), db)
         | Some m \<Rightarrow>
             (\<exists>db1. delete_message no_faults mid db
                      = (Inr (JSONResponse 200 (JDict [(''message'', JStr msg_message_deleted)])), db1)
                \<and> find (\<lambda>m. msg_id m = mid) (messages db1) = Some (m\<lparr>is_deleted := True\<rparr>)
                \<and> delete_message no_faults mid db1
                      = (Inr (JSONResponse 200 (JDict [(''message'', JStr msg_message_deleted)])), db1)
                \<and> (\<forall>flt sid. get_messages flt sid db1
                      = get_messages flt sid
                          (db\<lparr>messages := filter (\<lambda>m. msg_id m \<noteq> mid) (messages db)\<rparr>)))"
proof (cases "find (\<lambda>m. msg_id m = mid) (messages db)")
  case None
  then show ?thesis
    by (simp add: delete_message_def no_faults_def execute_with_def range)
next
  case (Some m)
  then have m: "m \<in> set (messages db)" "msg_id m = mid"
    using find_Some_props[of "\<lambda>m. msg_id m = mid" "messages db" m] by auto
  let ?ok = "JSONResponse 200 (JDict [(''message'', JStr msg_message_deleted)])"
  show ?thesis
  proof (cases "is_deleted m")
    case True
    then have same: "m\<lparr>is_deleted := True\<rparr> = m" by simp
    have first: "delete_message no_faults mid db = (Inr ?ok, db)"
      using Some True by (simp add: delete_message_def no_faults_def execute_with_def range)
    have all_deleted: "\<forall>m'\<in>set (messages db). msg_id m' = mid \<longrightarrow> is_deleted m'"
    proof (intro ballI impI)
      fix m' assume "m' \<in> set (messages db)" and "msg_id m' = mid"
      then have "m' = m"
        using key_unique[of "messages db" m m'] inv m by (simp add: db_inv_def)
      then show "is_deleted m'" using True by simp
    qed
    have "get_messages flt sid (db\<lparr>messages := filter (\<lambda>m. msg_id m \<noteq> mid) (messages db)\<rparr>)
           = get_messages flt sid db"
      for flt sid
      by (rule get_messages_cong) (simp_all del: filter_filter add: filter_already_deleted[OF all_deleted])
    with first Some same show ?thesis by simp
  next
    case False
    let ?db1 = "db\<lparr>messages :=
                   map (\<lambda>m. if msg_id m = mid then m\<lparr>is_deleted := True\<rparr> else m) (messages db)\<rparr>"
    have first: "delete_message no_faults mid db = (Inr ?ok, ?db1)"
      using Some False m by (simp add: delete_message_def no_faults_def execute_with_def range)
    have found: "find (\<lambda>m. msg_id m = mid) (messages ?db1) = Some (m\<lparr>is_deleted := True\<rparr>)"
      using Some by (simp add: find_mark_deleted)
    then have second: "delete_message no_faults mid ?db1 = (Inr ?ok, ?db1)"
      by (simp add: delete_message_def no_faults_def execute_with_def range)
    have "get_messages flt sid ?db1
           = get_messages flt sid (db\<lparr>messages := filter (\<lambda>m. msg_id m \<noteq> mid) (messages db)\<rparr>)"
      for flt sid
      by (intro get_messages_cong) (simp_all add: filter_mark_deleted)
    with first found second Some show ?thesis by simp
  qed
qed

theorem delete_message_idempotent_witness:
  "db_inv example_db \<and> int64 2
   \<and> find (\<lambda>m. msg_id m = 2) (messages example_db)
       = Some \<lparr>msg_id = 2, session_id = 1, character_name = ''assistant'',
               message = JStr ''world'', timestamp = 11, is_deleted = False\<rparr>
   \<and> (\<exists>db1. delete_message no_faults 2 example_db
                = (Inr (JSONResponse 200 (JDict [(''message'', JStr msg_message_deleted)])), db1)
          \<and> find (\<lambda>m. msg_id m = 2) (messages db1)
                = Some \<lparr>msg_id = 2, session_id = 1, character_name = ''assistant'',
                        message = JStr ''world'', timestamp = 11, is_deleted = True\<rparr>
          \<and> delete_message no_faults 2 db1
                = (Inr (JSONResponse 200 (JDict [(''message'', JStr msg_message_deleted)])), db1)
          \<and> (\<forall>flt sid. get_messages flt sid db1
                = get_messages flt sid
                    (example_db\<lparr>messages := filter (\<lambda>m. msg_id m \<noteq> 2) (messages example_db)\<rparr>)))"
proof -
  have h: "db_inv example_db"
    by (simp add: db_inv_def example_db_def)
  have f: "find (\<lambda>m. msg_id m = 2) (messages example_db)
       = Some \<lparr>msg_id = 2, session_id = 1, character_name = ''assistant'',
               message = JStr ''world'', timestamp = 11, is_deleted = False\<rparr>"
    by (simp add: example_db_def)
  from delete_message_idempotent[OF h int64_small(2)] show ?thesis
    unfolding f option.case using h f int64_small(2) by simp
qed

lemma delete_message_effect:
  "snd (delete_message flt mid db) = db
   \<or> (snd (delete_message flt mid db)
         = db\<lparr>messages :=
               map (\<lambda>m. if msg_id m = mid then m\<lparr>is_deleted := True\<rparr> else m) (messages db)\<rparr>
      \<and> (\<exists>m. find (\<lambda>m. msg_id m = mid) (messages db) = Some m \<and> \<not> is_deleted m))"
proof (cases "find (\<lambda>m. msg_id m = mid) (messages db)")
  case None
  then show ?thesis
    by (simp add: delete_message_def Let_def split: option.splits)
next
  case (Some m)
  then have "msg_id m = mid"
    using find_Some_props[of "\<lambda>m. msg_id m = mid" "messages db" m] by simp
  with Some show ?thesis
    by (simp add: delete_message_def Let_def split: option.splits)
qed

text \<open>
  Claim C10. Whatever \<open>delete_message\<close> answers, and whether or not the store fails, the
  \<open>sessions\<close> table is unchanged, no row is added or removed, every row with another id is
  unchanged, every row differs from what it was at most in \<open>is_deleted\<close>, and when the
  message found is already marked deleted the store is unchanged.
\<close>

theorem delete_message_frame:
  "(let db' = snd (delete_message flt mid db)
    in sessions db' = sessions db
     \<and> length (messages db') = length (messages db)
     \<and> (\<forall>i < length (messages db).
          msg_id (messages db ! i) \<noteq> mid \<longrightarrow> messages db' ! i = messages db ! i)
     \<and> (\<forall>i < length (messages db).
          messages db' ! i = (messages db ! i)\<lparr>is_deleted := is_deleted (messages db' ! i)\<rparr>)
     \<and> (\<forall>m. find (\<lambda>m. msg_id m = mid) (messages db) = Some m \<and> is_deleted m \<longrightarrow> db' = db))"
proof -
  consider (same) "snd (delete_message flt mid db) = db"
    | (marked) m where
        "snd (delete_message flt mid db)
           = db\<lparr>messages :=
                 map (\<lambda>m. if msg_id m = mid then m\<lparr>is_deleted := True\<rparr> else m) (messages db)\<rparr>"
        "find (\<lambda>m. msg_id m = mid) (messages db) = Some m" "\<not> is_deleted m"
    using delete_message_effect[of flt mid db] by blast
  then show ?thesis
  proof cases
    case same
    then show ?thesis by simp
  next
    case marked
    then show ?thesis by (simp add: Let_def)
  qed
qed

theorem delete_message_frame_witness:
  "(1::nat) < length (messages example_db)
   \<and> msg_id (messages example_db ! 1) \<noteq> 1
   \<and> messages (snd (delete_message no_faults 1 example_db)) ! 1 = messages example_db ! 1
   \<and> sessions (snd (delete_message no_faults 1 example_db)) = sessions example_db
   \<and> length (messages (snd (delete_message no_faults 1 example_db))) = 4
   \<and> find (\<lambda>m. msg_id m = 4) (messages example_db)
       = Some \<lparr>msg_id = 4, session_id = 1, character_name = ''user'',
               message = JStr ''again'', timestamp = 13, is_deleted = True\<rparr>
   \<and> snd (delete_message no_faults 4 example_db) = example_db"
proof -
  have a: "(1::nat) < length (messages example_db)"
    by (simp add: example_db_def)
  have b: "msg_id (messages example_db ! 1) \<noteq> 1"
    by (simp add: example_db_def)
  have len: "length (messages example_db) = 4"
    by (simp add: example_db_def)
  have f: "find (\<lambda>m. msg_id m = 4) (messages example_db)
       = Some \<lparr>msg_id = 4, session_id = 1, character_name = ''user'',
               message = JStr ''again'', timestamp = 13, is_deleted = True\<rparr>"
    by (simp add: example_db_def)
  from delete_message_frame[of no_faults 1 example_db] a b
  have "messages (snd (delete_message no_faults 1 example_db)) ! 1 = messages example_db ! 1"
       "sessions (snd (delete_message no_faults 1 example_db)) = sessions example_db"
       "length (messages (snd (delete_message no_faults 1 example_db))) = length (messages example_db)"
    unfolding Let_def by blast+
  moreover from delete_message_frame[of no_faults 4 example_db] f
  have "snd (delete_message no_faults 4 example_db) = example_db"
    unfolding Let_def by simp
  ultimately show ?thesis using a b f len by simp
qed

section \<open>Deleting a session\<close>

lemma deactivated_inactive:
  assumes "s' \<in> set (map (\<lambda>s. if sess_id s = sid then s\<lparr>active := False\<rparr> else s) ss)"
    and "sess_id s' = sid"
  shows "\<not> active s'"
proof -
  from assms(1) obtain s where s: "s' = (if sess_id s = sid then s\<lparr>active := False\<rparr> else s)"
    by (auto simp only: set_map image_iff)
  show ?thesis
  proof (cases "sess_id s = sid")
    case True
    with s show ?thesis by simp
  next
    case False
    with s assms(2) show ?thesis by simp
  qed
qed

lemma find_deactivate:
  "find (\<lambda>s. sess_id s = sid') (map (\<lambda>s. if sess_id s = sid then s\<lparr>active := False\<rparr> else s) ss)
     = map_option (\<lambda>s. if sess_id s = sid then s\<lparr>active := False\<rparr> else s)
         (find (\<lambda>s. sess_id s = sid') ss)"
  by (induction ss) auto

lemma filter_deactivate:
  "filter (\<lambda>s. active s) (map (\<lambda>s. if sess_id s = sid then s\<lparr>active := False\<rparr> else s) ss)
     = filter (\<lambda>s. active s) (filter (\<lambda>s. sess_id s \<noteq> sid) ss)"
  by (induction ss) auto

lemma deactivate_twice:
  "map (\<lambda>s. if sess_id s = sid then s\<lparr>active := False\<rparr> else s)
       (map (\<lambda>s. if sess_id s = sid then s\<lparr>active := False\<rparr> else s) ss)
     = map (\<lambda>s. if sess_id s = sid then s\<lparr>active := False\<rparr> else s) ss"
  by (induction ss) auto

lemma get_messages_deactivate:
  "get_messages flt sid'
     (db\<lparr>sessions := map (\<lambda>s. if sess_id s = sid then s\<lparr>active := False\<rparr> else s) (sessions db)\<rparr>)
     = get_messages flt sid' db"
  by (cases "find (\<lambda>s. sess_id s = sid') (sessions db)")
     (simp_all add: get_messages_def find_deactivate split: option.splits)

text \<open>
  Claim C8, for the ids the store can bind. Without store faults, and for a session id in the
  signed 64-bit range, \<open>delete_session\<close> on an id that no session has answers 404 and
  changes nothing. On the id of an existing session, active or not, it answers 200 and the
  session is inactive afterwards; a second call answers 200 again; the listing of sessions is
  then the listing of a store without this session; the \<open>messages\<close> table is unchanged and
  every listing of messages is what it was before.
\<close>

theorem delete_session_spec:
  assumes range: "int64 sid"
  shows "case find (\<lambda>s. sess_id s = sid) (sessions db) of
     None \<Rightarrow>
       delete_session no_faults sid db = (Inl (HTTPException 404 detail_session_missing), db)
   | Some s \<Rightarrow>
       (\<exists>db1. delete_session no_faults sid db
                = (Inr (JSONResponse 200 (JDict [(''message'', JStr msg_session_deleted)])), db1)
          \<and> (\<forall>s'\<in>set (sessions db1). sess_id s' = sid \<longrightarrow> \<not> active s')
          \<and> delete_session no_faults sid db1
                = (Inr (JSONResponse 200 (JDict [(''message'', JStr msg_session_deleted)])), db1)
          \<and> (\<forall>flt. list_sessions flt db1
                = list_sessions flt (db\<lparr>sessions := filter (\<lambda>s. sess_id s \<noteq> sid) (sessions db)\<rparr>))
          \<and> messages db1 = messages db
          \<and> (\<forall>flt sid'. get_messages flt sid' db1 = get_messages flt sid' db))"
proof (cases "find (\<lambda>s. sess_id s = sid) (sessions db)")
  case None
  then show ?thesis
    by (simp add: delete_session_def no_faults_def execute_with_def range Let_def)
next
  case (Some s)
  then have s: "sess_id s = sid"
    using find_Some_props[of "\<lambda>s. sess_id s = sid" "sessions db" s] by simp
  let ?ok = "JSONResponse 200 (JDict [(''message'', JStr msg_session_deleted)])"
  let ?db1 = "db\<lparr>sessions :=
                 map (\<lambda>s. if sess_id s = sid then s\<lparr>active := False\<rparr> else s) (sessions db)\<rparr>"
  have first: "delete_session no_faults sid db = (Inr ?ok, ?db1)"
    using Some s by (simp add: delete_session_def no_faults_def execute_with_def range Let_def)
  have sess1: "sessions ?db1
      = map (\<lambda>s. if sess_id s = sid then s\<lparr>active := False\<rparr> else s) (sessions db)"
    by simp
  have inactive: "\<forall>s'\<in>set (sessions ?db1). sess_id s' = sid \<longrightarrow> \<not> active s'"
    unfolding sess1 using deactivated_inactive[of _ sid "sessions db"] by blast
  have "find (\<lambda>s. sess_id s = sid) (sessions ?db1) = Some (s\<lparr>active := False\<rparr>)"
    using Some s by (simp add: find_deactivate)
  then have second: "delete_session no_faults sid ?db1 = (Inr ?ok, ?db1)"
    using s by (simp add: delete_session_def no_faults_def execute_with_def range Let_def deactivate_twice)
  have listing: "list_sessions flt ?db1
         = list_sessions flt (db\<lparr>sessions := filter (\<lambda>s. sess_id s \<noteq> sid) (sessions db)\<rparr>)" for flt
    by (simp add: list_sessions_def filter_deactivate split: option.splits)
  have msgs: "get_messages flt sid' ?db1 = get_messages flt sid' db" for flt sid'
    by (rule get_messages_deactivate)
  have "messages ?db1 = messages db"
    by simp
  with first inactive second listing msgs
  have "\<exists>db1. delete_session no_faults sid db = (Inr ?ok, db1)
          \<and> (\<forall>s'\<in>set (sessions db1). sess_id s' = sid \<longrightarrow> \<not> active s')
          \<and> delete_session no_faults sid db1 = (Inr ?ok, db1)
          \<and> (\<forall>flt. list_sessions flt db1
                = list_sessions flt (db\<lparr>sessions := filter (\<lambda>s. sess_id s \<noteq> sid) (sessions db)\<rparr>))
          \<and> messages db1 = messages db
          \<and> (\<forall>flt sid'. get_messages flt sid' db1 = get_messages flt sid' db)"
    by blast
  then show ?thesis
    by (simp only: Some option.case)
qed

theorem delete_session_spec_witness:
  "int64 1 \<and> int64 9
   \<and> delete_session no_faults 1 example_db
     = (Inr (JSONResponse 200 (JDict [(''message'', JStr msg_session_deleted)])),
        example_db\<lparr>sessions := [\<lparr>sess_id = 1, active = False, name = Some ''Test''\<rparr>,
                                \<lparr>sess_id = 2, active = False, name = None\<rparr>]\<rparr>)
   \<and> delete_session no_faults 1
        (example_db\<lparr>sessions := [\<lparr>sess_id = 1, active = False, name = Some ''Test''\<rparr>,
                                \<lparr>sess_id = 2, active = False, name = None\<rparr>]\<rparr>)
     = (Inr (JSONResponse 200 (JDict [(''message'', JStr msg_session_deleted)])),
        example_db\<lparr>sessions := [\<lparr>sess_id = 1, active = False, name = Some ''Test''\<rparr>,
                                \<lparr>sess_id = 2, active = False, name = None\<rparr>]\<rparr>)
   \<and> (\<forall>flt. list_sessions flt
          (example_db\<lparr>sessions := [\<lparr>sess_id = 1, active = False, name = Some ''Test''\<rparr>,
                                  \<lparr>sess_id = 2, active = False, name = None\<rparr>]\<rparr>)
        = list_sessions flt
            (example_db\<lparr>sessions := filter (\<lambda>s. sess_id s \<noteq> 1) (sessions example_db)\<rparr>))
   \<and> (\<forall>flt sid'. get_messages flt sid'
          (example_db\<lparr>sessions := [\<lparr>sess_id = 1, active = False, name = Some ''Test''\<rparr>,
                                  \<lparr>sess_id = 2, active = False, name = None\<rparr>]\<rparr>)
        = get_messages flt sid' example_db)
   \<and> delete_session no_faults 9 example_db
       = (Inl (HTTPException 404 detail_session_missing), example_db)"
proof -
  let ?db1 = "example_db\<lparr>sessions := [\<lparr>sess_id = 1, active = False, name = Some ''Test''\<rparr>,
                                      \<lparr>sess_id = 2, active = False, name = None\<rparr>]\<rparr>"
  have f: "find (\<lambda>s. sess_id s = 1) (sessions example_db)
     = Some \<lparr>sess_id = 1, active = True, name = Some ''Test''\<rparr>"
    by (simp add: example_db_def)
  have g: "find (\<lambda>s. sess_id s = 9) (sessions example_db) = None"
    by (simp add: example_db_def)
  have run: "delete_session no_faults 1 example_db
     = (Inr (JSONResponse 200 (JDict [(''message'', JStr msg_session_deleted)])), ?db1)"
    by (simp add: delete_session_def no_faults_def execute_with_def int64_def example_db_def)
  from delete_session_spec[OF int64_small(1), of example_db]
  have "\<exists>db1. delete_session no_faults 1 example_db
                = (Inr (JSONResponse 200 (JDict [(''message'', JStr msg_session_deleted)])), db1)
          \<and> delete_session no_faults 1 db1
                = (Inr (JSONResponse 200 (JDict [(''message'', JStr msg_session_deleted)])), db1)
          \<and> (\<forall>flt. list_sessions flt db1
                = list_sessions flt
                    (example_db\<lparr>sessions := filter (\<lambda>s. sess_id s \<noteq> 1) (sessions example_db)\<rparr>))
          \<and> (\<forall>flt sid'. get_messages flt sid' db1 = get_messages flt sid' example_db)"
    unfolding f option.case by blast
  then have existing:
    "delete_session no_faults 1 ?db1
       = (Inr (JSONResponse 200 (JDict [(''message'', JStr msg_session_deleted)])), ?db1)"
    "\<forall>flt. list_sessions flt ?db1
       = list_sessions flt
           (example_db\<lparr>sessions := filter (\<lambda>s. sess_id s \<noteq> 1) (sessions example_db)\<rparr>)"
    "\<forall>flt sid'. get_messages flt sid' ?db1 = get_messages flt sid' example_db"
    unfolding run by simp_all
  from delete_session_spec[OF int64_small(5), of example_db]
  have missing: "delete_session no_faults 9 example_db
       = (Inl (HTTPException 404 detail_session_missing), example_db)"
    unfolding g option.case .
  from run existing missing int64_small(1) int64_small(5) show ?thesis
    by blast
qed

section \<open>Ids outside the range of the store\<close>

text \<open>
  Claim C3, as stated, promises 404 for every session id that no session has. On the empty
  store the id \<open>2^63\<close> matches no session; the query cannot bind it, and the route answers
  500 with the text for an unknown error.
\<close>

theorem get_messages_overflow_counterexample:
  "sessions init_db = []
   \<and> get_messages no_faults 9223372036854775808 init_db
       = Inl (HTTPException 500 detail_unknown_error)"
  by (simp add: get_messages_def no_faults_def execute_with_def int64_def init_db_def)

text \<open>
  Claim C4, as stated, promises 404 for every message id that no message has. On the empty
  store the id \<open>2^63\<close> matches no message; the query cannot bind it, and the route answers
  500 with the text for an unknown error, the store unchanged.
\<close>

theorem delete_message_overflow_counterexample:
  "messages init_db = []
   \<and> delete_message no_faults 9223372036854775808 init_db
       = (Inl (HTTPException 500 detail_unknown_error), init_db)"
  by (simp add: delete_message_def no_faults_def execute_with_def int64_def init_db_def)

text \<open>
  Claim C8, as stated, promises 404 for every session id that no session has. On the empty
  store the id \<open>2^63\<close> matches no session; the query cannot bind it, and the route answers
  500 with the text for a failed deletion, the store unchanged.
\<close>

theorem delete_session_overflow_counterexample:
  "sessions init_db = []
   \<and> delete_session no_faults 9223372036854775808 init_db
       = (Inl (HTTPException 500 detail_delete_session_failed), init_db)"
  by (simp add: delete_session_def no_faults_def execute_with_def int64_def init_db_def)

section \<open>Chat turns\<close>




lemma chat_with_openai_failed_call:
  assumes "\<forall>body. post (chat_request cfg cs db) = Returned body \<longrightarrow> isl (response_content body)"
  shows "\<exists>he. chat_with_openai cfg post flt utcnow cs db
               = (Inl he, db, if flt 0 = None then [ApiPost (chat_request cfg cs db)] else [])"
proof (cases "post (chat_request cfg cs db)")
  case (Returned body)
  with assms obtain e where "response_content body = Inl e"
    by (cases "response_content body") auto
  with Returned show ?thesis
    by (auto simp: chat_with_openai_def chat_with_openai_try_def async_call_openai_chat_api_def
          chat_request_def split: option.splits)
qed (auto simp: chat_with_openai_def chat_with_openai_try_def async_call_openai_chat_api_def
          chat_request_def split: option.splits)

text \<open>
  Claim C2. Suppose the call of the completion API does not yield a reply: the exchange
  raises (a transport failure or an error status), or the body it returns lacks one of the
  fields \<open>choices\<close>, \<open>[0]\<close>, \<open>message\<close>, \<open>content\<close>. Then, whatever the store does,
  the chat turn ends with an \<open>HTTPException\<close>, nothing is committed, the store is the one
  before the turn, and every listing of messages is what it was before.
\<close>

theorem chat_completion_failure_atomic:
  assumes "\<forall>body. post (chat_request cfg cs db) = Returned body \<longrightarrow> isl (response_content body)"
  shows "\<exists>he evs.
           chat_with_openai cfg post flt utcnow cs db = (Inl he, db, evs)
         \<and> (\<forall>rows. DbCommit rows \<notin> set evs)
         \<and> (\<forall>flt' sid.
               get_messages flt' sid (fst (snd (chat_with_openai cfg post flt utcnow cs db)))
                 = get_messages flt' sid db)"
proof -
  from chat_with_openai_failed_call[where post = post and cfg = cfg and cs = cs and db = db
         and flt = flt and utcnow = utcnow] assms
  obtain he where
    run: "chat_with_openai cfg post flt utcnow cs db
            = (Inl he, db, if flt 0 = None then [ApiPost (chat_request cfg cs db)] else [])"
    by blast
  have "\<forall>rows. DbCommit rows \<notin> set (if flt 0 = None then [ApiPost (chat_request cfg cs db)] else [])"
    by simp
  with run show ?thesis
    by simp
qed

theorem chat_completion_failure_atomic_witness:
  "chat_with_openai example_cfg example_post_error no_faults (\<lambda>k. 0)
       \<lparr>chat_session_id = 1, user_message = ''more''\<rparr> example_db
     = (Inl (HTTPException 500 detail_db_or_api_failed), example_db,
        [ApiPost (chat_request example_cfg \<lparr>chat_session_id = 1, user_message = ''more''\<rparr>
                    example_db)])
   \<and> (\<forall>flt' sid.
         get_messages flt' sid
           (fst (snd (chat_with_openai example_cfg example_post_error no_faults (\<lambda>k. 0)
              \<lparr>chat_session_id = 1, user_message = ''more''\<rparr> example_db)))
           = get_messages flt' sid example_db)"
proof -
  have h: "\<forall>body. example_post_error
              (chat_request example_cfg \<lparr>chat_session_id = 1, user_message = ''more''\<rparr> example_db)
            = Returned body \<longrightarrow> isl (response_content body)"
    by (simp add: response_content_def example_post_error_def)
  have run: "chat_with_openai example_cfg example_post_error
        no_faults (\<lambda>k. 0) \<lparr>chat_session_id = 1, user_message = ''more''\<rparr> example_db
       = (Inl (HTTPException 500 detail_db_or_api_failed), example_db,
          [ApiPost (chat_request example_cfg \<lparr>chat_session_id = 1, user_message = ''more''\<rparr>
                      example_db)])"
    by (simp add: chat_with_openai_def chat_with_openai_try_def async_call_openai_chat_api_def
          chat_request_def no_faults_def response_content_def example_post_error_def)
  from chat_completion_failure_atomic[where post = example_post_error and cfg = example_cfg
         and cs = "\<lparr>chat_session_id = 1, user_message = ''more''\<rparr>" and db = example_db
         and flt = no_faults and utcnow = "\<lambda>k. 0"] h run show ?thesis
    by blast
qed

text \<open>
  Claim C7. When the query for the history succeeds, the first thing a chat turn does to the
  outside is one POST to the completion API, and the only thing that can follow is one
  commit. The \<open>messages\<close> entry of the posted payload is the list made of the rows of the
  session that are not deleted, in the order of the table, with role \<open>system\<close> for a row
  whose character name is \<open>assistant\<close> and role \<open>user\<close> for every other row, followed by
  one last entry with role \<open>user\<close> and the text of the request.
\<close>

theorem chat_history_sent:
  assumes "flt 0 = None"
  shows "\<exists>req rest.
           snd (snd (chat_with_openai cfg post flt utcnow cs db)) = ApiPost req # rest
         \<and> (rest = [] \<or> (\<exists>rows. rest = [DbCommit rows]))
         \<and> map_of (json_body req) ''messages''
             = Some (JList
                 (map (\<lambda>m. JDict
                         [(''role'', JStr (if character_name m = ''assistant''
                                          then ''system'' else ''user'')),
                          (''content'', message m)])
                      (filter (\<lambda>m. session_id m = chat_session_id cs \<and> \<not> is_deleted m)
                              (messages db))
                  @ [JDict [(''role'', JStr ''user''), (''content'', JStr (user_message cs))]]))"
proof -
  have body: "map_of (json_body (chat_request cfg cs db)) ''messages''
                = Some (JList (chat_history cs db))"
    by (simp add: chat_request_def make_request_def payload_def remove_none_def)
  have trace: "\<exists>rest. snd (snd (chat_with_openai cfg post flt utcnow cs db))
                        = ApiPost (chat_request cfg cs db) # rest
                 \<and> (rest = [] \<or> (\<exists>rows. rest = [DbCommit rows]))"
    using assms
    by (auto simp: chat_with_openai_def chat_with_openai_try_def async_call_openai_chat_api_def
          chat_request_def Let_def
        split: option.splits sum.splits aiohttp_outcome.splits prod.splits raised.splits)
  from trace body show ?thesis
    unfolding chat_history_def by blast
qed

theorem chat_history_sent_witness:
  "no_faults 0 = None
   \<and> (\<exists>req rest.
         snd (snd (chat_with_openai example_cfg example_post_error no_faults (\<lambda>k. 0)
                     \<lparr>chat_session_id = 1, user_message = ''more''\<rparr> example_db))
           = ApiPost req # rest
       \<and> (rest = [] \<or> (\<exists>rows. rest = [DbCommit rows]))
       \<and> map_of (json_body req) ''messages''
           = Some (JList
               [JDict [(''role'', JStr ''user''), (''content'', JStr ''hello'')],
                JDict [(''role'', JStr ''system''), (''content'', JStr ''world'')],
                JDict [(''role'', JStr ''user''), (''content'', JStr ''more'')]]))"
proof -
  have h: "no_faults 0 = None"
    by (simp add: no_faults_def)
  have rows: "filter (\<lambda>m. session_id m = chat_session_id \<lparr>chat_session_id = 1, user_message = ''more''\<rparr>
                          \<and> \<not> is_deleted m) (messages example_db)
       = [\<lparr>msg_id = 1, session_id = 1, character_name = ''user'',
            message = JStr ''hello'', timestamp = 10, is_deleted = False\<rparr>,
          \<lparr>msg_id = 2, session_id = 1, character_name = ''assistant'',
            message = JStr ''world'', timestamp = 11, is_deleted = False\<rparr>]"
    by (simp add: example_db_def)
  from chat_history_sent[where flt = no_faults and cfg = example_cfg
         and post = example_post_error and utcnow = "\<lambda>k. 0"
         and cs = "\<lparr>chat_session_id = 1, user_message = ''more''\<rparr>" and db = example_db] h
  show ?thesis
    unfolding rows by simp
qed

section \<open>The payload of a completion request\<close>

text \<open>
  Claim C9. Both clients, the asynchronous and the synchronous one, post exactly one request,
  to the configured address and with the same body. Read as a dictionary, the body of the
  request posted holds the model name and the messages, and for each of \<open>temperature\<close>,
  \<open>max_tokens\<close>, \<open>top_p\<close>, \<open>frequency_penalty\<close> and \<open>presence_penalty\<close> an entry
  exactly when the argument is set, with the value given. No key occurs twice and no value
  is null.
\<close>

theorem payload_omits_unset:
  "\<exists>body.
       snd (async_call_openai_chat_api url' post model' msgs key temperature max_tokens top_p
              frequency_penalty presence_penalty)
         = [ApiPost \<lparr>url = url',
                     headers = [(''Content-Type'', ''application/json''),
                                (''Authorization'', ''Bearer '' @ key)],
                     json_body = body\<rparr>]
     \<and> snd (call_openai_chat_api url' post' model' msgs key temperature max_tokens top_p
              frequency_penalty presence_penalty)
         = [ApiPost \<lparr>url = url',
                     headers = [(''Content-Type'', ''application/json''),
                                (''Authorization'', ''Bearer '' @ key)],
                     json_body = body\<rparr>]
     \<and> map_of body
         = [''model'' \<mapsto> JStr model', ''messages'' \<mapsto> JList msgs]
           ++ (case temperature of None \<Rightarrow> Map.empty
               | Some v \<Rightarrow> [''temperature'' \<mapsto> JFloat v])
           ++ (case max_tokens of None \<Rightarrow> Map.empty | Some v \<Rightarrow> [''max_tokens'' \<mapsto> JInt v])
           ++ (case top_p of None \<Rightarrow> Map.empty | Some v \<Rightarrow> [''top_p'' \<mapsto> JFloat v])
           ++ (case frequency_penalty of None \<Rightarrow> Map.empty
               | Some v \<Rightarrow> [''frequency_penalty'' \<mapsto> JFloat v])
           ++ (case presence_penalty of None \<Rightarrow> Map.empty
               | Some v \<Rightarrow> [''presence_penalty'' \<mapsto> JFloat v])
     \<and> distinct (map fst body)
     \<and> JNull \<notin> snd ` set body"
proof -
  let ?body = "payload model' msgs temperature max_tokens top_p frequency_penalty presence_penalty"
  have calls:
    "snd (async_call_openai_chat_api url' post model' msgs key temperature max_tokens top_p
             frequency_penalty presence_penalty)
       = [ApiPost \<lparr>url = url',
                   headers = [(''Content-Type'', ''application/json''),
                              (''Authorization'', ''Bearer '' @ key)],
                   json_body = ?body\<rparr>]"
    "snd (call_openai_chat_api url' post' model' msgs key temperature max_tokens top_p
             frequency_penalty presence_penalty)
       = [ApiPost \<lparr>url = url',
                   headers = [(''Content-Type'', ''application/json''),
                              (''Authorization'', ''Bearer '' @ key)],
                   json_body = ?body\<rparr>]"
    by (simp_all add: async_call_openai_chat_api_def call_openai_chat_api_def make_request_def
          Let_def)
  have body:
    "map_of ?body
     = [''model'' \<mapsto> JStr model', ''messages'' \<mapsto> JList msgs]
       ++ (case temperature of None \<Rightarrow> Map.empty | Some v \<Rightarrow> [''temperature'' \<mapsto> JFloat v])
       ++ (case max_tokens of None \<Rightarrow> Map.empty | Some v \<Rightarrow> [''max_tokens'' \<mapsto> JInt v])
       ++ (case top_p of None \<Rightarrow> Map.empty | Some v \<Rightarrow> [''top_p'' \<mapsto> JFloat v])
       ++ (case frequency_penalty of None \<Rightarrow> Map.empty
           | Some v \<Rightarrow> [''frequency_penalty'' \<mapsto> JFloat v])
       ++ (case presence_penalty of None \<Rightarrow> Map.empty
           | Some v \<Rightarrow> [''presence_penalty'' \<mapsto> JFloat v])"
    by (cases temperature; cases max_tokens; cases top_p; cases frequency_penalty;
        cases presence_penalty)
       (auto simp: payload_def remove_none_def fun_eq_iff map_add_def)
  have keys: "distinct (map fst ?body)"
    by (cases temperature; cases max_tokens; cases top_p; cases frequency_penalty;
        cases presence_penalty)
       (simp_all add: payload_def remove_none_def)
  have nonnull: "JNull \<notin> snd ` set ?body"
    by (cases temperature; cases max_tokens; cases top_p; cases frequency_penalty;
        cases presence_penalty)
       (simp_all add: payload_def remove_none_def)
  from calls body keys nonnull show ?thesis
    by blast
qed

theorem payload_omits_unset_witness:
  "snd (async_call_openai_chat_api ''http://localhost/v1/chat/completions'' example_post_ok
          ''gpt'' [JDict [(''role'', JStr ''user''), (''content'', JStr ''hi'')]] ''sk''
          None (Some 64) None None None)
     = [ApiPost \<lparr>url = ''http://localhost/v1/chat/completions'',
                 headers = [(''Content-Type'', ''application/json''),
                            (''Authorization'', ''Bearer sk'')],
                 json_body =
                   [(''model'', JStr ''gpt''),
                    (''messages'', JList
                       [JDict [(''role'', JStr ''user''), (''content'', JStr ''hi'')]]),
                    (''max_tokens'', JInt 64)]\<rparr>]
   \<and> (\<exists>body.
         snd (async_call_openai_chat_api ''http://localhost/v1/chat/completions'' example_post_ok
                ''gpt'' [JDict [(''role'', JStr ''user''), (''content'', JStr ''hi'')]] ''sk''
                None (Some 64) None None None)
           = [ApiPost \<lparr>url = ''http://localhost/v1/chat/completions'',
                       headers = [(''Content-Type'', ''application/json''),
                                  (''Authorization'', ''Bearer sk'')],
                       json_body = body\<rparr>]
       \<and> map_of body ''model'' = Some (JStr ''gpt'')
       \<and> map_of body ''max_tokens'' = Some (JInt 64)
       \<and> map_of body ''temperature'' = None
       \<and> map_of body ''top_p'' = None
       \<and> map_of body ''frequency_penalty'' = None
       \<and> map_of body ''presence_penalty'' = None)"
proof -
  have run: "snd (async_call_openai_chat_api ''http://localhost/v1/chat/completions''
          example_post_ok
          ''gpt'' [JDict [(''role'', JStr ''user''), (''content'', JStr ''hi'')]] ''sk''
          None (Some 64) None None None)
     = [ApiPost \<lparr>url = ''http://localhost/v1/chat/completions'',
                 headers = [(''Content-Type'', ''application/json''),
                            (''Authorization'', ''Bearer sk'')],
                 json_body =
                   [(''model'', JStr ''gpt''),
                    (''messages'', JList
                       [JDict [(''role'', JStr ''user''), (''content'', JStr ''hi'')]]),
                    (''max_tokens'', JInt 64)]\<rparr>]"
    by (simp add: async_call_openai_chat_api_def make_request_def payload_def remove_none_def
          Let_def)
  from payload_omits_unset[of "''http://localhost/v1/chat/completions''" example_post_ok "''gpt''"
         "[JDict [(''role'', JStr ''user''), (''content'', JStr ''hi'')]]" "''sk''"
         None "Some 64" None None None]
  obtain body where
    sent: "snd (async_call_openai_chat_api ''http://localhost/v1/chat/completions''
              example_post_ok
              ''gpt'' [JDict [(''role'', JStr ''user''), (''content'', JStr ''hi'')]] ''sk''
              None (Some 64) None None None)
             = [ApiPost \<lparr>url = ''http://localhost/v1/chat/completions'',
                         headers = [(''Content-Type'', ''application/json''),
                                    (''Authorization'', ''Bearer sk'')],
                         json_body = body\<rparr>]"
    and m: "map_of body
          = [''model'' \<mapsto> JStr ''gpt'',
             ''messages'' \<mapsto> JList [JDict [(''role'', JStr ''user''), (''content'', JStr ''hi'')]]]
            ++ [''max_tokens'' \<mapsto> JInt 64]"
    by auto
  from m have
    "map_of body ''model'' = Some (JStr ''gpt'')"
    "map_of body ''max_tokens'' = Some (JInt 64)"
    "map_of body ''temperature'' = None"
    "map_of body ''top_p'' = None"
    "map_of body ''frequency_penalty'' = None"
    "map_of body ''presence_penalty'' = None"
    by simp_all
  with sent run show ?thesis
    by blast
qed

section \<open>What a caller sees of a failure\<close>



section \<open>A chat turn for a session that does not exist\<close>

text \<open>
  Claim C1 says that a chat turn for a session id that no session has answers 404 without
  calling the completion API. \<open>chat_with_openai\<close> never looks the session up: on an empty
  store, a turn for session 7 posts the request, answers 200 and commits two messages of
  session 7.
\<close>

theorem chat_unknown_session_runs:
  "chat_with_openai example_cfg example_post_ok no_faults (\<lambda>k. 0)
      \<lparr>chat_session_id = 7, user_message = ''hello''\<rparr> init_db
   = (Inr (JSONResponse 200 (JDict
         [(''message'', JStr msg_chat_ok),
          (''ai_message_id'', JInt 2),
          (''user_message_id'', JInt 1),
          (''response'', JStr ''world''),
          (''character_name'', JStr ''assistant'')])),
      \<lparr>sessions = [],
       messages =
         [\<lparr>msg_id = 1, session_id = 7, character_name = ''user'',
           message = JStr ''hello'', timestamp = 0, is_deleted = False\<rparr>,
          \<lparr>msg_id = 2, session_id = 7, character_name = ''assistant'',
           message = JStr ''world'', timestamp = 0, is_deleted = False\<rparr>]\<rparr>,
      [ApiPost
         \<lparr>url = ''http://localhost/v1/chat/completions'',
          headers = [(''Content-Type'', ''application/json''), (''Authorization'', ''Bearer sk'')],
          json_body =
            [(''model'', JStr ''gpt''),
             (''messages'', JList
                [JDict [(''role'', JStr ''user''), (''content'', JStr ''hello'')]])]\<rparr>,
       DbCommit
         [\<lparr>msg_id = 1, session_id = 7, character_name = ''user'',
           message = JStr ''hello'', timestamp = 0, is_deleted = False\<rparr>,
          \<lparr>msg_id = 2, session_id = 7, character_name = ''assistant'',
           message = JStr ''world'', timestamp = 0, is_deleted = False\<rparr>]])"
  by (simp add: chat_with_openai_def chat_with_openai_try_def async_call_openai_chat_api_def
        make_request_def payload_def remove_none_def chat_history_def no_faults_def Let_def
        response_content_def example_body_def example_post_ok_def example_cfg_def init_db_def
        next_id_def)

end
